theory Spec2Isabelle
  imports Complex_Main
begin

section \<open>Pong: a shallow embedding of main.py\<close>

text \<open>
  The simulation core of \<^verbatim>\<open>main.py\<close> (Bounds, Paddle, AIPaddle, Ball and the
  per-tick orchestration of Game) as HOL functions.  Rendering, fonts and the event queue
  are left out; the keys and the clock enter as arguments.

  \<^item> Python's \<^verbatim>\<open>float\<close> is read as \<^typ>\<open>real\<close>: rounding is not modelled, so
    an equality of floats up to tolerance is an exact equality here.
  \<^item> Python's \<^verbatim>\<open>int\<close> and the coordinates of a \<^verbatim>\<open>pygame.Rect\<close> are read as
    \<^typ>\<open>int\<close>, unbounded.
  \<^item> Every call of the \<^verbatim>\<open>random\<close> module takes its draw as an argument.
  \<^item> Every method that mutates \<^verbatim>\<open>self\<close> returns the updated record.
  \<^item> Every exception the code can raise is a value of \<open>error\<close>, and the one loop that
    need not end returns an \<open>option\<close>.
\<close>

subsection \<open>Module constants\<close>

definition WIDTH :: int where "WIDTH = 800"
definition HEIGHT :: int where "HEIGHT = 600"
definition FPS :: int where "FPS = 60"

definition PADDLE_WIDTH :: int where "PADDLE_WIDTH = 12"
definition PADDLE_HEIGHT :: int where "PADDLE_HEIGHT = 100"
definition PADDLE_MARGIN :: int where "PADDLE_MARGIN = 30"
definition PADDLE_SPEED :: real where "PADDLE_SPEED = 6"

definition BALL_SIZE :: int where "BALL_SIZE = 14"
definition BALL_SPEED_START :: real where "BALL_SPEED_START = 5"
definition BALL_SPEED_INCREMENT :: real where "BALL_SPEED_INCREMENT = 1 / 4"
definition BALL_SPEED_MAX :: real where "BALL_SPEED_MAX = 12"

definition SCORE_TO_WIN :: int where "SCORE_TO_WIN = 11"
definition COUNTDOWN_TIME :: int where "COUNTDOWN_TIME = 1200"

subsection \<open>Python and pygame primitives the code calls\<close>

datatype error = ZeroDivisionError | ValueError | Diverges

text \<open>Python's \<^verbatim>\<open>int(x)\<close> on a float: truncation toward zero.\<close>

definition py_int :: "real \<Rightarrow> int" where
  "py_int x = (if 0 \<le> x then \<lfloor>x\<rfloor> else \<lceil>x\<rceil>)"

text \<open>
  \<^verbatim>\<open>random.uniform(a, b)\<close> is \<^verbatim>\<open>a + (b - a) * random()\<close>; the draw \<open>u\<close> of
  \<^verbatim>\<open>random()\<close> lies in \<open>[0, 1)\<close>.
\<close>

definition uniform :: "real \<Rightarrow> real \<Rightarrow> real \<Rightarrow> real" where
  "uniform a b u = a + (b - a) * u"

definition unit_draw :: "real \<Rightarrow> bool" where
  "unit_draw u = (0 \<le> u \<and> u < 1)"

text \<open>
  \<^verbatim>\<open>pygame.Rect\<close>: four integers; the edges and the centre are derived, and
  assigning to one of them moves the rectangle without resizing it.
\<close>

record rect =
  rect_x :: int
  rect_y :: int
  rect_w :: int
  rect_h :: int

definition rect_top :: "rect \<Rightarrow> int" where "rect_top r = rect_y r"
definition rect_bottom :: "rect \<Rightarrow> int" where "rect_bottom r = rect_y r + rect_h r"
definition rect_left :: "rect \<Rightarrow> int" where "rect_left r = rect_x r"
definition rect_right :: "rect \<Rightarrow> int" where "rect_right r = rect_x r + rect_w r"
definition rect_centerx :: "rect \<Rightarrow> int" where "rect_centerx r = rect_x r + rect_w r div 2"
definition rect_centery :: "rect \<Rightarrow> int" where "rect_centery r = rect_y r + rect_h r div 2"

definition set_top :: "int \<Rightarrow> rect \<Rightarrow> rect" where
  "set_top v r = r\<lparr>rect_y := v\<rparr>"
definition set_bottom :: "int \<Rightarrow> rect \<Rightarrow> rect" where
  "set_bottom v r = r\<lparr>rect_y := v - rect_h r\<rparr>"
definition set_left :: "int \<Rightarrow> rect \<Rightarrow> rect" where
  "set_left v r = r\<lparr>rect_x := v\<rparr>"
definition set_right :: "int \<Rightarrow> rect \<Rightarrow> rect" where
  "set_right v r = r\<lparr>rect_x := v - rect_w r\<rparr>"
definition set_center :: "int \<Rightarrow> int \<Rightarrow> rect \<Rightarrow> rect" where
  "set_center cx cy r = r\<lparr>rect_x := cx - rect_w r div 2, rect_y := cy - rect_h r div 2\<rparr>"

text \<open>
  \<^verbatim>\<open>Rect.colliderect\<close>: a rectangle of zero width or height collides with nothing;
  otherwise the two must overlap strictly on both axes.
\<close>

definition colliderect :: "rect \<Rightarrow> rect \<Rightarrow> bool" where
  "colliderect a b =
     (if rect_w a = 0 \<or> rect_h a = 0 \<or> rect_w b = 0 \<or> rect_h b = 0 then False
      else min (rect_x a) (rect_x a + rect_w a) < max (rect_x b) (rect_x b + rect_w b)
         \<and> min (rect_y a) (rect_y a + rect_h a) < max (rect_y b) (rect_y b + rect_h b)
         \<and> max (rect_x a) (rect_x a + rect_w a) > min (rect_x b) (rect_x b + rect_w b)
         \<and> max (rect_y a) (rect_y a + rect_h a) > min (rect_y b) (rect_y b + rect_h b))"

text \<open>
  \<^verbatim>\<open>pygame.Vector2\<close>: \<^verbatim>\<open>rotate\<close> takes degrees and turns the vector from the
  x axis toward the y axis; \<^verbatim>\<open>normalize\<close> raises ValueError on the zero vector.
\<close>

record vec =
  vec_x :: real
  vec_y :: real

definition Vector2 :: "real \<Rightarrow> real \<Rightarrow> vec" where
  "Vector2 a b = \<lparr>vec_x = a, vec_y = b\<rparr>"

definition radians :: "real \<Rightarrow> real" where
  "radians deg = deg * pi / 180"

definition rotate :: "real \<Rightarrow> vec \<Rightarrow> vec" where
  "rotate deg v =
     Vector2 (vec_x v * cos (radians deg) - vec_y v * sin (radians deg))
             (vec_x v * sin (radians deg) + vec_y v * cos (radians deg))"

definition vec_length :: "vec \<Rightarrow> real" where
  "vec_length v = sqrt ((vec_x v)\<^sup>2 + (vec_y v)\<^sup>2)"

definition scale :: "vec \<Rightarrow> real \<Rightarrow> vec" where
  "scale v k = Vector2 (vec_x v * k) (vec_y v * k)"

definition normalize :: "vec \<Rightarrow> error + vec" where
  "normalize v =
     (if vec_length v = 0 then Inl ValueError
      else Inr (Vector2 (vec_x v / vec_length v) (vec_y v / vec_length v)))"

subsection \<open>Bounds\<close>

record bounds =
  width :: int
  height :: int

definition center :: "bounds \<Rightarrow> vec" where
  "center bnds = Vector2 (real_of_int (width bnds) / 2) (real_of_int (height bnds) / 2)"

subsection \<open>Paddle\<close>

record paddle =
  p_rect :: rect
  p_speed :: real
  p_velocity :: real

definition Paddle :: "int \<Rightarrow> int \<Rightarrow> int \<Rightarrow> int \<Rightarrow> real \<Rightarrow> paddle" where
  "Paddle px py pw ph sp =
     \<lparr>p_rect = \<lparr>rect_x = px, rect_y = py, rect_w = pw, rect_h = ph\<rparr>,
      p_speed = sp, p_velocity = 0\<rparr>"

text \<open>\<^verbatim>\<open>Paddle.update\<close>: move by the truncated step, then clamp top and bottom in turn.\<close>

definition Paddle_update :: "real \<Rightarrow> bounds \<Rightarrow> 'a paddle_scheme \<Rightarrow> 'a paddle_scheme" where
  "Paddle_update dt bnds p =
     (let dy = p_velocity p * dt;
          r1 = (p_rect p)\<lparr>rect_y := rect_y (p_rect p) + py_int dy\<rparr>;
          r2 = (if rect_top r1 < 0 then set_top 0 r1 else r1);
          r3 = (if rect_bottom r2 > height bnds then set_bottom (height bnds) r2 else r2)
      in p\<lparr>p_rect := r3\<rparr>)"

subsection \<open>AIPaddle\<close>

record ai_paddle = paddle +
  reaction_delay :: real
  error_margin :: real
  track_smooth :: real
  time_since_react :: real
  target_y :: real

definition AIPaddle :: "int \<Rightarrow> int \<Rightarrow> int \<Rightarrow> int \<Rightarrow> real \<Rightarrow> ai_paddle" where
  "AIPaddle px py pw ph sp =
     \<lparr>p_rect = \<lparr>rect_x = px, rect_y = py, rect_w = pw, rect_h = ph\<rparr>,
      p_speed = sp, p_velocity = 0,
      reaction_delay = 1 / 10, error_margin = 18, track_smooth = 18 / 100,
      time_since_react = 0,
      target_y = real_of_int (rect_centery \<lparr>rect_x = px, rect_y = py, rect_w = pw, rect_h = ph\<rparr>)\<rparr>"

text \<open>
  The mirroring loop of \<^verbatim>\<open>_predict_target\<close>.  One pass of the body applies both
  \<^verbatim>\<open>if\<close>s in sequence; the loop need not end (with \<open>h \<le> 0\<close> it can run forever),
  so not returning is the value \<open>None\<close>.
\<close>

definition mirror_body :: "real \<Rightarrow> real \<Rightarrow> real" where
  "mirror_body h y =
     (let y1 = (if y < 0 then - y else y)
      in if y1 > h then 2 * h - y1 else y1)"

partial_function (option) mirror :: "real \<Rightarrow> real \<Rightarrow> real option" where
  "mirror h y = (if y < 0 \<or> y > h then mirror h (mirror_body h y) else Some y)"

definition time_to_reach :: "'a paddle_scheme \<Rightarrow> rect \<Rightarrow> vec \<Rightarrow> real" where
  "time_to_reach p ball_rect ball_vel =
     real_of_int (rect_left (p_rect p) - rect_centerx ball_rect) / vec_x ball_vel"

definition predicted_y :: "'a paddle_scheme \<Rightarrow> rect \<Rightarrow> vec \<Rightarrow> real" where
  "predicted_y p ball_rect ball_vel =
     real_of_int (rect_centery ball_rect) + vec_y ball_vel * time_to_reach p ball_rect ball_vel"

definition predict_target :: "ai_paddle \<Rightarrow> rect \<Rightarrow> vec \<Rightarrow> bounds \<Rightarrow> real \<Rightarrow> real option" where
  "predict_target p ball_rect ball_vel bnds u =
     (if vec_x ball_vel \<le> 0 then Some (real_of_int (height bnds) / 2)
      else if time_to_reach p ball_rect ball_vel \<le> 0
      then Some (real_of_int (rect_centery ball_rect))
      else
        case mirror (real_of_int (height bnds)) (predicted_y p ball_rect ball_vel) of
          None \<Rightarrow> None
        | Some reflected \<Rightarrow>
            Some (reflected + uniform (- error_margin p) (error_margin p) u))"


definition update_ai :: "real \<Rightarrow> rect \<Rightarrow> vec \<Rightarrow> bounds \<Rightarrow> real \<Rightarrow> ai_paddle \<Rightarrow> ai_paddle option" where
  "update_ai dt ball_rect ball_vel bnds u p =
     (let t = time_since_react p + dt;
          retarget =
            (if t \<ge> reaction_delay p
             then map_option (\<lambda>tgt. p\<lparr>time_since_react := 0, target_y := tgt\<rparr>)
                    (predict_target p ball_rect ball_vel bnds u)
             else Some (p\<lparr>time_since_react := t\<rparr>))
      in case retarget of
           None \<Rightarrow> None
         | Some p1 \<Rightarrow>
             let desired = target_y p1 - real_of_int (rect_centery (p_rect p1));
                 move = desired * track_smooth p1;
                 max_step = p_speed p1;
                 move' = max (- max_step) (min max_step move)
             in Some (Paddle_update dt bnds (p1\<lparr>p_velocity := move'\<rparr>)))"

subsection \<open>Ball\<close>

record ball =
  rect :: rect
  velocity :: vec
  speed :: real
  serve_cooldown :: int

definition Ball :: "int \<Rightarrow> int \<Rightarrow> int \<Rightarrow> real \<Rightarrow> ball" where
  "Ball cx cy sz sp =
     \<lparr>rect = set_center cx cy \<lparr>rect_x = 0, rect_y = 0, rect_w = sz, rect_h = sz\<rparr>,
      velocity = Vector2 sp 0, speed = sp, serve_cooldown = 0\<rparr>"

text \<open>
  The three draws of \<^verbatim>\<open>Ball.reset\<close>: the two \<^verbatim>\<open>random.uniform\<close> calls that fill
  \<^verbatim>\<open>angle_choices\<close>, and the index \<^verbatim>\<open>random.choice\<close> takes of that two-element list.
\<close>

record serve_draws =
  draw_first :: real
  draw_second :: real
  pick_second :: bool

definition serve_draws_ok :: "serve_draws \<Rightarrow> bool" where
  "serve_draws_ok d = (unit_draw (draw_first d) \<and> unit_draw (draw_second d))"

definition serve_angle :: "serve_draws \<Rightarrow> real" where
  "serve_angle d =
     (let angle_choices = [uniform (- 25) 25 (draw_first d), uniform 155 205 (draw_second d)]
      in angle_choices ! (if pick_second d then 1 else 0))"

text \<open>The local \<^verbatim>\<open>direction\<close> of \<^verbatim>\<open>Ball.reset\<close>, after the \<^verbatim>\<open>to_left\<close> branches.\<close>

definition serve_direction :: "bool option \<Rightarrow> serve_draws \<Rightarrow> vec" where
  "serve_direction to_left d =
     (let angle = serve_angle d;
          direction = rotate angle (Vector2 1 0)
      in if to_left = Some True then direction\<lparr>vec_x := - \<bar>vec_x direction\<bar>\<rparr>
         else if to_left = Some False then direction\<lparr>vec_x := \<bar>vec_x direction\<bar>\<rparr>
         else direction)"

definition reset :: "vec \<Rightarrow> bool option \<Rightarrow> serve_draws \<Rightarrow> ball \<Rightarrow> error + ball" where
  "reset c to_left d b =
     (let r1 = set_center (py_int (vec_x c)) (py_int (vec_y c)) (rect b)
      in case normalize (serve_direction to_left d) of
           Inl e \<Rightarrow> Inl e
         | Inr n \<Rightarrow>
             Inr (b\<lparr>rect := r1, velocity := scale n (speed b), serve_cooldown := COUNTDOWN_TIME\<rparr>))"

text \<open>
  The angle \<^verbatim>\<open>_bounce_off_paddle\<close> computes from the hit position: the ball's
  rectangle (already moved flush to the paddle) against the paddle's rectangle.  The
  local \<^verbatim>\<open>norm\<close> is assigned twice: \<open>hit_norm\<close> is its first value, \<open>bounce_norm\<close>
  the clamped one.  The caller checks the paddle's height first: dividing by zero raises.
\<close>

definition hit_norm :: "rect \<Rightarrow> rect \<Rightarrow> real" where
  "hit_norm ball_rect paddle_rect =
     (let offset = rect_centery ball_rect - rect_centery paddle_rect
      in real_of_int offset / (real_of_int (rect_h paddle_rect) / 2))"

definition bounce_norm :: "rect \<Rightarrow> rect \<Rightarrow> real" where
  "bounce_norm ball_rect paddle_rect = max (- 1) (min 1 (hit_norm ball_rect paddle_rect))"

definition bounce_angle :: "rect \<Rightarrow> rect \<Rightarrow> real" where
  "bounce_angle ball_rect paddle_rect = bounce_norm ball_rect paddle_rect * 60"

definition bounce_off_paddle :: "'a paddle_scheme \<Rightarrow> ball \<Rightarrow> error + ball" where
  "bounce_off_paddle pad b =
     (let r1 = (if vec_x (velocity b) < 0 then set_left (rect_right (p_rect pad)) (rect b)
                else set_right (rect_left (p_rect pad)) (rect b))
      in if rect_h (p_rect pad) = 0 then Inl ZeroDivisionError
         else
           let angle = bounce_angle r1 (p_rect pad);
               direction = (if vec_x (velocity b) > 0 then 1 else - 1);
               new_dir = rotate angle (Vector2 direction 0);
               speed' = min BALL_SPEED_MAX (speed b + BALL_SPEED_INCREMENT)
           in case normalize new_dir of
                Inl e \<Rightarrow> Inl e
              | Inr n \<Rightarrow> Inr (b\<lparr>rect := r1, speed := speed', velocity := scale n speed'\<rparr>))"

text \<open>
  \<^verbatim>\<open>Ball.update\<close> returns the scoring side (\<open>Some 0\<close>: left scores, \<open>Some 1\<close>: right
  scores) together with the updated ball.  The phases are named so that the theorems can
  speak of them: the motion, the wall reflection, the scoring test.
\<close>

definition advance :: "real \<Rightarrow> ball \<Rightarrow> ball" where
  "advance dt_ms b =
     (let dt = dt_ms / (1000 / real_of_int FPS);
          move = scale (velocity b) dt;
          r1 = (rect b)\<lparr>rect_x := rect_x (rect b) + py_int (vec_x move)\<rparr>;
          r2 = r1\<lparr>rect_y := rect_y r1 + py_int (vec_y move)\<rparr>
      in b\<lparr>rect := r2\<rparr>)"

definition wall_collide :: "bounds \<Rightarrow> ball \<Rightarrow> ball" where
  "wall_collide bnds b =
     (if rect_top (rect b) \<le> 0
      then b\<lparr>rect := set_top 0 (rect b),
             velocity := (velocity b)\<lparr>vec_y := vec_y (velocity b) * (- 1)\<rparr>\<rparr>
      else if rect_bottom (rect b) \<ge> height bnds
      then b\<lparr>rect := set_bottom (height bnds) (rect b),
             velocity := (velocity b)\<lparr>vec_y := vec_y (velocity b) * (- 1)\<rparr>\<rparr>
      else b)"

definition scored_side :: "bounds \<Rightarrow> ball \<Rightarrow> nat option" where
  "scored_side bnds b =
     (if rect_right (rect b) < 0 then Some 1
      else if rect_left (rect b) > width bnds then Some 0
      else None)"

definition Ball_update ::
  "real \<Rightarrow> bounds \<Rightarrow> 'a paddle_scheme \<times> 'b paddle_scheme \<Rightarrow> ball \<Rightarrow> error + (nat option \<times> ball)" where
  "Ball_update dt_ms bnds paddles b =
     (if serve_cooldown b > 0
      then Inr (None, b\<lparr>serve_cooldown := serve_cooldown b - py_int dt_ms\<rparr>)
      else
        let b1 = wall_collide bnds (advance dt_ms b);
            scored = scored_side bnds b1
        in case scored of
             Some s \<Rightarrow>
               Inr (Some s, b1\<lparr>speed := min BALL_SPEED_MAX (speed b1 + BALL_SPEED_INCREMENT)\<rparr>)
           | None \<Rightarrow>
               if colliderect (rect b1) (p_rect (fst paddles)) \<and> vec_x (velocity b1) < 0
               then map_sum id (Pair None) (bounce_off_paddle (fst paddles) b1)
               else if colliderect (rect b1) (p_rect (snd paddles)) \<and> vec_x (velocity b1) > 0
               then map_sum id (Pair None) (bounce_off_paddle (snd paddles) b1)
               else Inr (None, b1))"

text \<open>
  Tick after tick, as the loop of \<^verbatim>\<open>Game.run\<close> calls \<^verbatim>\<open>update\<close>: the ball
  updated once for each elapsed time of the list, stopping at the first exception.
\<close>

fun Ball_updates ::
  "real list \<Rightarrow> bounds \<Rightarrow> 'a paddle_scheme \<times> 'b paddle_scheme \<Rightarrow> ball \<Rightarrow> error + ball" where
  "Ball_updates [] bnds paddles b = Inr b"
| "Ball_updates (dt_ms # rest) bnds paddles b =
     (case Ball_update dt_ms bnds paddles b of
        Inl e \<Rightarrow> Inl e
      | Inr (scored, b') \<Rightarrow> Ball_updates rest bnds paddles b')"

subsection \<open>Game\<close>

record game =
  bounds :: bounds
  left_paddle :: paddle
  right_paddle :: ai_paddle
  ball :: ball
  score :: "int list"
  winner :: "nat option"

text \<open>The random draws one tick may consume: the AI's jitter and the serve.\<close>

record draws =
  jitter_draw :: real
  serve :: serve_draws

definition draws_ok :: "draws \<Rightarrow> bool" where
  "draws_ok d = (unit_draw (jitter_draw d) \<and> serve_draws_ok (serve d))"

definition Game :: "serve_draws \<Rightarrow> error + game" where
  "Game d =
     (let bnds = \<lparr>width = WIDTH, height = HEIGHT\<rparr>;
          lp = Paddle PADDLE_MARGIN (HEIGHT div 2 - PADDLE_HEIGHT div 2)
                 PADDLE_WIDTH PADDLE_HEIGHT PADDLE_SPEED;
          rp = AIPaddle (WIDTH - PADDLE_MARGIN - PADDLE_WIDTH) (HEIGHT div 2 - PADDLE_HEIGHT div 2)
                 PADDLE_WIDTH PADDLE_HEIGHT (PADDLE_SPEED * (95 / 100));
          b0 = Ball (WIDTH div 2) (HEIGHT div 2) BALL_SIZE BALL_SPEED_START
      in case reset (center bnds) None d b0 of
           Inl e \<Rightarrow> Inl e
         | Inr b \<Rightarrow>
             Inr \<lparr>bounds = bnds, left_paddle = lp, right_paddle = rp, ball = b,
                  score = [0, 0], winner = None\<rparr>)"

definition handle_input :: "bool \<Rightarrow> bool \<Rightarrow> game \<Rightarrow> game" where
  "handle_input key_w key_s g =
     (let vel0 = 0;
          vel1 = (if key_w then vel0 - p_speed (left_paddle g) else vel0);
          vel2 = (if key_s then vel1 + p_speed (left_paddle g) else vel1)
      in g\<lparr>left_paddle := (left_paddle g)\<lparr>p_velocity := vel2\<rparr>\<rparr>)"

definition dt_px :: "real \<Rightarrow> real" where
  "dt_px dt_ms = (dt_ms / (1000 / real_of_int FPS)) * 1"

definition Game_update :: "real \<Rightarrow> bool \<Rightarrow> bool \<Rightarrow> draws \<Rightarrow> game \<Rightarrow> error + game" where
  "Game_update dt_ms key_w key_s d g =
     (if winner g \<noteq> None then Inr g
      else
        let g1 = handle_input key_w key_s g;
            lp = Paddle_update (dt_px dt_ms) (bounds g1) (left_paddle g1)
        in case update_ai (dt_px dt_ms) (rect (ball g1)) (velocity (ball g1)) (bounds g1)
                  (jitter_draw d) (right_paddle g1) of
             None \<Rightarrow> Inl Diverges
           | Some rp \<Rightarrow>
               (case Ball_update dt_ms (bounds g1) (lp, rp) (ball g1) of
                  Inl e \<Rightarrow> Inl e
                | Inr (None, b) \<Rightarrow> Inr (g1\<lparr>left_paddle := lp, right_paddle := rp, ball := b\<rparr>)
                | Inr (Some scored, b) \<Rightarrow>
                    (let sc = (score g1)[scored := score g1 ! scored + 1];
                         win = (if sc ! scored \<ge> SCORE_TO_WIN then Some scored else winner g1)
                     in (case reset (center (bounds g1)) (Some (scored = 1)) (serve d) b of
                           Inl e \<Rightarrow> Inl e
                         | Inr b' \<Rightarrow>
                             Inr (g1\<lparr>left_paddle := lp, right_paddle := rp, ball := b',
                                     score := sc, winner := win\<rparr>)))))"

text \<open>The restart branch of \<^verbatim>\<open>Game.run\<close>: the R key, acted on only once a winner exists.\<close>

definition restart :: "serve_draws \<Rightarrow> game \<Rightarrow> error + game" where
  "restart d g =
     (if winner g \<noteq> None
      then
        case reset (center (bounds g)) None d ((ball g)\<lparr>speed := BALL_SPEED_START\<rparr>) of
          Inl e \<Rightarrow> Inl e
        | Inr b \<Rightarrow> Inr (g\<lparr>score := [0, 0], winner := None, ball := b\<rparr>)
      else Inr g)"

text \<open>
  The states the program can be in between two ticks: the constructed game, and whatever
  ticks and restarts make of it, for draws in range and a clock that never runs backwards.
\<close>

inductive reachable :: "game \<Rightarrow> bool" where
  reach_init: "serve_draws_ok d \<Longrightarrow> Game d = Inr g \<Longrightarrow> reachable g"
| reach_update:
    "reachable g \<Longrightarrow> draws_ok d \<Longrightarrow> 0 \<le> dt_ms \<Longrightarrow> Game_update dt_ms key_w key_s d g = Inr g'
       \<Longrightarrow> reachable g'"
| reach_restart: "reachable g \<Longrightarrow> serve_draws_ok d \<Longrightarrow> restart d g = Inr g' \<Longrightarrow> reachable g'"

section \<open>Basic facts about the primitives\<close>

lemma py_int_of_int: "py_int (real_of_int n) = n"
  by (simp add: py_int_def)

lemma py_int_sub_unit: "0 < x \<Longrightarrow> x < 1 \<Longrightarrow> py_int x = 0"
  by (simp add: py_int_def floor_eq_iff)

lemma Ball_update_serving:
  "serve_cooldown b > 0 \<Longrightarrow>
   Ball_update dt_ms bnds paddles b =
     Inr (None, b\<lparr>serve_cooldown := serve_cooldown b - py_int dt_ms\<rparr>)"
  by (simp add: Ball_update_def)

section \<open>Paddle clamping\<close>




section \<open>The serving state\<close>

text \<open>
  Claim C8, as the code has it.  For every ball with \<open>serve_cooldown > 0\<close>,
  \<^verbatim>\<open>Ball.update\<close> returns no scoring side and changes nothing but the cooldown, which
  drops by the elapsed time truncated toward zero to whole milliseconds (by the elapsed
  time itself when that is a whole number of milliseconds); position, velocity and speed
  are unchanged, whatever the bounds and the paddles are.
\<close>

theorem Ball_update_serving_frame:
  "(serve_cooldown b > 0 \<longrightarrow>
      Ball_update dt_ms bnds paddles b =
        Inr (None, b\<lparr>serve_cooldown := serve_cooldown b - py_int dt_ms\<rparr>))
   \<and> (serve_cooldown b > 0 \<longrightarrow>
      Ball_update (real_of_int n) bnds paddles b =
        Inr (None, b\<lparr>serve_cooldown := serve_cooldown b - n\<rparr>))"
  by (simp add: Ball_update_serving py_int_of_int)

theorem Ball_update_serving_frame_witness:
  "Ball_update (33 / 2) \<lparr>width = 800, height = 600\<rparr>
       (Paddle 30 250 12 100 6, AIPaddle 758 250 12 100 (57 / 10))
       \<lparr>rect = \<lparr>rect_x = 393, rect_y = 293, rect_w = 14, rect_h = 14\<rparr>,
        velocity = Vector2 5 0, speed = 5, serve_cooldown = 1200\<rparr>
     = Inr (None,
       \<lparr>rect = \<lparr>rect_x = 393, rect_y = 293, rect_w = 14, rect_h = 14\<rparr>,
        velocity = Vector2 5 0, speed = 5, serve_cooldown = 1184\<rparr>)"
proof -
  have "py_int (33 / 2) = 16"
    by (simp add: py_int_def floor_eq_iff)
  then show ?thesis
    using Ball_update_serving_frame
      [of "\<lparr>rect = \<lparr>rect_x = 393, rect_y = 293, rect_w = 14, rect_h = 14\<rparr>,
            velocity = Vector2 5 0, speed = 5, serve_cooldown = 1200\<rparr>"
          "33 / 2" "\<lparr>width = 800, height = 600\<rparr>"
          "(Paddle 30 250 12 100 6, AIPaddle 758 250 12 100 (57 / 10))" 0]
    by simp
qed

text \<open>
  Claim C8 as stated fails: after half a millisecond the cooldown is still 1200, not
  1200 less the elapsed time.
\<close>

theorem Ball_update_serving_half_ms_counterexample:
  "Ball_update (1 / 2) \<lparr>width = 800, height = 600\<rparr>
       (Paddle 30 250 12 100 6, AIPaddle 758 250 12 100 (57 / 10))
       \<lparr>rect = \<lparr>rect_x = 393, rect_y = 293, rect_w = 14, rect_h = 14\<rparr>,
        velocity = Vector2 5 0, speed = 5, serve_cooldown = 1200\<rparr>
     = Inr (None,
       \<lparr>rect = \<lparr>rect_x = 393, rect_y = 293, rect_w = 14, rect_h = 14\<rparr>,
        velocity = Vector2 5 0, speed = 5, serve_cooldown = 1200\<rparr>)
   \<and> real_of_int 1200 \<noteq> real_of_int 1200 - 1 / 2"
  by (simp add: Ball_update_def py_int_def)

text \<open>
  Claim C10.  While the ball is Serving, an elapsed time strictly between 0 and 1
  millisecond truncates to 0, so \<^verbatim>\<open>Ball.update\<close> returns no score and leaves the
  whole ball, its cooldown included, exactly as it was; hence after any number of such
  ticks the ball is still the same Serving ball and never becomes Active.
\<close>

theorem Ball_update_sub_ms_stuck:
  assumes "serve_cooldown b > 0" and "\<forall>dt_ms \<in> set dts. 0 < dt_ms \<and> dt_ms < 1"
  shows "(\<forall>dt_ms \<in> set dts. Ball_update dt_ms bnds paddles b = Inr (None, b))
       \<and> Ball_updates dts bnds paddles b = Inr b"
proof -
  have step: "Ball_update dt_ms bnds paddles b = Inr (None, b)" if "0 < dt_ms" "dt_ms < 1" for dt_ms
    by (simp add: Ball_update_serving [OF assms(1)] py_int_sub_unit [OF that])
  have "Ball_updates dts bnds paddles b = Inr b"
    using assms(2) by (induction dts) (simp_all add: step)
  with step assms(2) show ?thesis by blast
qed

theorem Ball_update_sub_ms_stuck_witness:
  "Ball_update (1 / 2) \<lparr>width = 800, height = 600\<rparr>
       (Paddle 30 250 12 100 6, AIPaddle 758 250 12 100 (57 / 10))
       \<lparr>rect = \<lparr>rect_x = 393, rect_y = 293, rect_w = 14, rect_h = 14\<rparr>,
        velocity = Vector2 5 0, speed = 5, serve_cooldown = 1200\<rparr>
     = Inr (None,
         \<lparr>rect = \<lparr>rect_x = 393, rect_y = 293, rect_w = 14, rect_h = 14\<rparr>,
          velocity = Vector2 5 0, speed = 5, serve_cooldown = 1200\<rparr>)
   \<and> Ball_updates [1 / 2, 1 / 4, 9 / 10] \<lparr>width = 800, height = 600\<rparr>
       (Paddle 30 250 12 100 6, AIPaddle 758 250 12 100 (57 / 10))
       \<lparr>rect = \<lparr>rect_x = 393, rect_y = 293, rect_w = 14, rect_h = 14\<rparr>,
        velocity = Vector2 5 0, speed = 5, serve_cooldown = 1200\<rparr>
     = Inr \<lparr>rect = \<lparr>rect_x = 393, rect_y = 293, rect_w = 14, rect_h = 14\<rparr>,
            velocity = Vector2 5 0, speed = 5, serve_cooldown = 1200\<rparr>"
  using Ball_update_sub_ms_stuck
    [of "\<lparr>rect = \<lparr>rect_x = 393, rect_y = 293, rect_w = 14, rect_h = 14\<rparr>,
          velocity = Vector2 5 0, speed = 5, serve_cooldown = 1200\<rparr>"
        "[1 / 2, 1 / 4, 9 / 10]" "\<lparr>width = 800, height = 600\<rparr>"
        "(Paddle 30 250 12 100 6, AIPaddle 758 250 12 100 (57 / 10))"]
  by simp

section \<open>The AI's prediction\<close>


















section \<open>Vectors and angles\<close>

lemma cos_radians_pos: "\<bar>a\<bar> < 90 \<Longrightarrow> 0 < cos (radians a)"
proof -
  assume a: "\<bar>a\<bar> < 90"
  have lo: "pi * (- 90) < pi * a"
    by (rule mult_strict_left_mono) (use a in auto)
  have hi: "pi * a < pi * 90"
    by (rule mult_strict_left_mono) (use a in auto)
  have "- (pi / 2) < radians a" "radians a < pi / 2"
    using lo hi by (auto simp: radians_def field_simps)
  then show ?thesis by (rule cos_gt_zero_pi)
qed

lemma vec_length_Vector2: "vec_length (Vector2 a b) = sqrt (a\<^sup>2 + b\<^sup>2)"
  by (simp add: vec_length_def Vector2_def)

lemma vec_length_rotate: "vec_length (rotate a (Vector2 k 0)) = \<bar>k\<bar>"
proof -
  have "(k * cos (radians a))\<^sup>2 + (k * sin (radians a))\<^sup>2 = k\<^sup>2"
    by (simp add: power_mult_distrib flip: distrib_left)
  then have "sqrt ((k * cos (radians a))\<^sup>2 + (k * sin (radians a))\<^sup>2) = \<bar>k\<bar>"
    by simp
  then show ?thesis
    by (simp add: vec_length_def rotate_def Vector2_def)
qed

lemma normalize_rotate_unit:
  "\<bar>k\<bar> = 1 \<Longrightarrow> normalize (rotate a (Vector2 k 0)) = Inr (rotate a (Vector2 k 0))"
  unfolding normalize_def vec_length_rotate
  by (simp add: rotate_def Vector2_def)

lemma vec_length_scale: "vec_length (scale v k) = vec_length v * \<bar>k\<bar>"
proof -
  have "(vec_x v * k)\<^sup>2 + (vec_y v * k)\<^sup>2 = ((vec_x v)\<^sup>2 + (vec_y v)\<^sup>2) * k\<^sup>2"
    by (simp add: power_mult_distrib distrib_right)
  then show ?thesis
    by (simp add: vec_length_def scale_def Vector2_def real_sqrt_mult)
qed

section \<open>The paddle bounce\<close>

lemma bounce_norm_range: "- 1 \<le> bounce_norm br pr \<and> bounce_norm br pr \<le> 1"
  by (simp add: bounce_norm_def)

lemma bounce_angle_range: "\<bar>bounce_angle br pr\<bar> \<le> 60"
  using bounce_norm_range [of br pr] by (simp add: bounce_angle_def abs_le_iff)

lemma bounce_reposition_centery:
  "rect_centery (if c then set_left v r else set_right v' r) = rect_centery r"
  by (simp add: rect_centery_def set_left_def set_right_def)

lemma bounce_off_paddle_result:
  assumes "rect_h (p_rect pad) \<noteq> 0"
  shows "bounce_off_paddle pad b =
     Inr (b\<lparr>rect := (if vec_x (velocity b) < 0 then set_left (rect_right (p_rect pad)) (rect b)
                      else set_right (rect_left (p_rect pad)) (rect b)),
            speed := min BALL_SPEED_MAX (speed b + BALL_SPEED_INCREMENT),
            velocity := scale (rotate (bounce_angle (rect b) (p_rect pad))
                                (Vector2 (if vec_x (velocity b) > 0 then 1 else - 1) 0))
                          (min BALL_SPEED_MAX (speed b + BALL_SPEED_INCREMENT))\<rparr>)"
proof -
  have ang: "bounce_angle (if vec_x (velocity b) < 0 then set_left (rect_right (p_rect pad)) (rect b)
                else set_right (rect_left (p_rect pad)) (rect b)) (p_rect pad)
             = bounce_angle (rect b) (p_rect pad)"
    by (simp add: bounce_angle_def bounce_norm_def hit_norm_def bounce_reposition_centery)
  show ?thesis
    using assms
    by (simp add: bounce_off_paddle_def Let_def ang normalize_rotate_unit)
qed











text \<open>
  What the bounce does to the heading: \<open>direction\<close> is the sign of the incoming
  horizontal velocity and the rotation stays within 60 degrees of it, so the ball leaves
  the bounce with the horizontal sign it came in with.
\<close>

lemma bounce_off_paddle_keeps_heading:
  assumes "bounce_off_paddle pad b = Inr b'" and "0 < speed b + BALL_SPEED_INCREMENT"
  shows "(vec_x (velocity b) < 0 \<longrightarrow> vec_x (velocity b') < 0)
       \<and> (vec_x (velocity b) > 0 \<longrightarrow> vec_x (velocity b') > 0)"
proof -
  have h: "rect_h (p_rect pad) \<noteq> 0"
    using assms(1) by (auto simp: bounce_off_paddle_def Let_def split: if_splits)
  have c: "0 < cos (radians (bounce_angle (rect b) (p_rect pad)))"
    using bounce_angle_range [of "rect b" "p_rect pad"] by (intro cos_radians_pos) simp
  have s: "0 < min BALL_SPEED_MAX (speed b + BALL_SPEED_INCREMENT)"
    using assms(2) by (simp add: BALL_SPEED_MAX_def)
  show ?thesis
    using c s assms(1) unfolding bounce_off_paddle_result [OF h]
    by (auto simp: scale_def rotate_def Vector2_def mult_less_0_iff zero_less_mult_iff)
qed

text \<open>
  Claim C1 says that a bounce off the left paddle leaves the ball with positive horizontal
  velocity.  The code at a centre hit on the left paddle of the constructed game: the ball
  comes in at \<open>(-5, 0)\<close>, overlaps the paddle after the 17 ms step, is put flush to the
  paddle's right edge, and leaves at \<open>(-21/4, 0)\<close>: still moving left, into the paddle.
\<close>

theorem bounce_left_paddle_still_leftward:
  "Ball_update 17 \<lparr>width = 800, height = 600\<rparr>
       (Paddle 30 250 12 100 6, AIPaddle 758 250 12 100 (57 / 10))
       \<lparr>rect = \<lparr>rect_x = 45, rect_y = 293, rect_w = 14, rect_h = 14\<rparr>,
        velocity = Vector2 (- 5) 0, speed = 5, serve_cooldown = 0\<rparr>
   = Inr (None,
       \<lparr>rect = \<lparr>rect_x = 42, rect_y = 293, rect_w = 14, rect_h = 14\<rparr>,
        velocity = Vector2 (- (21 / 4)) 0, speed = 21 / 4, serve_cooldown = 0\<rparr>)"
  by (simp add: Ball_update_def advance_def wall_collide_def scored_side_def colliderect_def
        bounce_off_paddle_def bounce_angle_def bounce_norm_def hit_norm_def normalize_def
        vec_length_def
        rotate_def radians_def scale_def Vector2_def Paddle_def AIPaddle_def Let_def py_int_def
        FPS_def BALL_SPEED_MAX_def BALL_SPEED_INCREMENT_def
        rect_top_def rect_bottom_def rect_left_def rect_right_def rect_centery_def
        set_left_def set_right_def set_top_def set_bottom_def)



section \<open>The serve\<close>









lemma serve_direction_xy:
  "\<bar>vec_x (serve_direction to_left d)\<bar> = \<bar>cos (radians (serve_angle d))\<bar>"
  "vec_y (serve_direction to_left d) = sin (radians (serve_angle d))"
  by (simp_all add: serve_direction_def Let_def rotate_def Vector2_def)

lemma serve_direction_length: "vec_length (serve_direction to_left d) = 1"
proof -
  have "(vec_x (serve_direction to_left d))\<^sup>2 = (cos (radians (serve_angle d)))\<^sup>2"
    using serve_direction_xy(1) [of to_left d] by (metis power2_abs)
  then show ?thesis
    by (simp add: vec_length_def serve_direction_xy(2))
qed

lemma normalize_unit: "vec_length v = 1 \<Longrightarrow> normalize v = Inr v"
  by (cases v) (simp add: normalize_def Vector2_def)

lemma reset_result:
  "reset c to_left d b =
     Inr (b\<lparr>rect := set_center (py_int (vec_x c)) (py_int (vec_y c)) (rect b),
            velocity := scale (serve_direction to_left d) (speed b),
            serve_cooldown := COUNTDOWN_TIME\<rparr>)"
  by (simp add: reset_def Let_def normalize_unit serve_direction_length)

lemma reset_length: "reset c to_left d b = Inr b' \<Longrightarrow> vec_length (velocity b') = \<bar>speed b'\<bar>"
  by (auto simp: reset_result vec_length_scale serve_direction_length)

lemma reset_speed: "reset c to_left d b = Inr b' \<Longrightarrow> speed b' = speed b"
  by (auto simp: reset_result)




section \<open>Speed and velocity over a tick\<close>

lemma advance_keeps: "velocity (advance dt_ms b) = velocity b" "speed (advance dt_ms b) = speed b"
  "serve_cooldown (advance dt_ms b) = serve_cooldown b"
  by (simp_all add: advance_def Let_def)

lemma wall_collide_keeps:
  "speed (wall_collide bnds b) = speed b"
  "vec_x (velocity (wall_collide bnds b)) = vec_x (velocity b)"
  "vec_length (velocity (wall_collide bnds b)) = vec_length (velocity b)"
  "serve_cooldown (wall_collide bnds b) = serve_cooldown b"
  by (simp_all add: wall_collide_def vec_length_def)

lemma bounce_off_paddle_speed:
  "bounce_off_paddle pad b = Inr b' \<Longrightarrow>
     speed b' = min BALL_SPEED_MAX (speed b + BALL_SPEED_INCREMENT)"
  by (auto simp: bounce_off_paddle_def Let_def split: if_splits sum.splits)

lemma bounce_off_paddle_length:
  assumes "bounce_off_paddle pad b = Inr b'" and "0 \<le> speed b"
  shows "vec_length (velocity b') = speed b'"
proof -
  have h: "rect_h (p_rect pad) \<noteq> 0"
    using assms(1) by (auto simp: bounce_off_paddle_def Let_def split: if_splits)
  have "0 \<le> min BALL_SPEED_MAX (speed b + BALL_SPEED_INCREMENT)"
    using assms(2) by (simp add: BALL_SPEED_MAX_def BALL_SPEED_INCREMENT_def)
  then show ?thesis
    using assms(1) unfolding bounce_off_paddle_result [OF h]
    by (auto simp: vec_length_scale vec_length_rotate)
qed

lemma map_sum_Pair_None:
  "map_sum id (Pair None) x = Inr (s, b') \<longleftrightarrow> s = None \<and> x = Inr b'"
  by (cases x) auto

lemma Ball_update_cases:
  assumes "Ball_update dt_ms bnds paddles b = Inr (s, b')"
  shows "(0 < serve_cooldown b \<and> s = None \<and> b' = b\<lparr>serve_cooldown := serve_cooldown b - py_int dt_ms\<rparr>)
       \<or> (serve_cooldown b \<le> 0 \<and> s \<noteq> None \<and> s = scored_side bnds (wall_collide bnds (advance dt_ms b))
            \<and> b' = (wall_collide bnds (advance dt_ms b))
                     \<lparr>speed := min BALL_SPEED_MAX (speed b + BALL_SPEED_INCREMENT)\<rparr>)
       \<or> (serve_cooldown b \<le> 0 \<and> s = None
            \<and> (bounce_off_paddle (fst paddles) (wall_collide bnds (advance dt_ms b)) = Inr b'
               \<or> bounce_off_paddle (snd paddles) (wall_collide bnds (advance dt_ms b)) = Inr b'))
       \<or> (serve_cooldown b \<le> 0 \<and> s = None \<and> b' = wall_collide bnds (advance dt_ms b))"
  using assms
  by (auto simp: Ball_update_def Let_def wall_collide_keeps advance_keeps map_sum_Pair_None
      split: if_splits option.splits)


lemma speed_step_bounds:
  "s \<le> BALL_SPEED_MAX \<Longrightarrow>
     s \<le> min BALL_SPEED_MAX (s + BALL_SPEED_INCREMENT)
   \<and> min BALL_SPEED_MAX (s + BALL_SPEED_INCREMENT) \<le> BALL_SPEED_MAX"
  by (simp add: BALL_SPEED_INCREMENT_def)

lemma Ball_update_speed:
  assumes "Ball_update dt_ms bnds paddles b = Inr (s, b')"
  shows "speed b' = speed b \<or> speed b' = min BALL_SPEED_MAX (speed b + BALL_SPEED_INCREMENT)"
    and "s \<noteq> None \<longrightarrow> speed b' = min BALL_SPEED_MAX (speed b + BALL_SPEED_INCREMENT)"
  using Ball_update_cases [OF assms]
  by (auto simp: wall_collide_keeps advance_keeps dest!: bounce_off_paddle_speed)

lemma Ball_update_None_length:
  assumes "Ball_update dt_ms bnds paddles b = Inr (None, b')"
    and "0 \<le> speed b" and "vec_length (velocity b) = speed b"
  shows "vec_length (velocity b') = speed b'"
proof -
  let ?b1 = "wall_collide bnds (advance dt_ms b)"
  have b1: "0 \<le> speed ?b1" "vec_length (velocity ?b1) = speed ?b1"
    using assms(2,3) by (simp_all add: wall_collide_keeps advance_keeps)
  from Ball_update_cases [OF assms(1)] show ?thesis
    using b1 assms(3) bounce_off_paddle_length [of "fst paddles" ?b1 b']
      bounce_off_paddle_length [of "snd paddles" ?b1 b'] by auto
qed

lemma Game_update_ball:
  assumes "Game_update dt_ms key_w key_s d g = Inr g'"
  shows "ball g' = ball g
       \<or> (\<exists>(lp::paddle) (rp::ai_paddle).
             Ball_update dt_ms (bounds g) (lp, rp) (ball g) = Inr (None, ball g'))
       \<or> (\<exists>(lp::paddle) (rp::ai_paddle) side b1.
             Ball_update dt_ms (bounds g) (lp, rp) (ball g) = Inr (Some side, b1)
           \<and> reset (center (bounds g)) (Some (side = 1)) (serve d) b1 = Inr (ball g'))"
  using assms
  by (auto simp: Game_update_def handle_input_def Let_def
      split: if_splits option.splits sum.splits prod.splits)

lemma reachable_inv:
  assumes "reachable g"
  shows "BALL_SPEED_START \<le> speed (ball g) \<and> speed (ball g) \<le> BALL_SPEED_MAX
       \<and> vec_length (velocity (ball g)) = speed (ball g)"
  using assms
proof (induction rule: reachable.induct)
  case (reach_init d g)
  then show ?case
    by (auto simp: Game_def Let_def reset_result Ball_def vec_length_scale serve_direction_length
        BALL_SPEED_START_def BALL_SPEED_MAX_def split: sum.splits)
next
  case (reach_update g d dt_ms key_w key_s g')
  note inv = reach_update.IH
  have s0: "0 \<le> speed (ball g)" using inv by (simp add: BALL_SPEED_START_def)
  from Game_update_ball [OF reach_update.hyps(4)] show ?case
  proof (elim disjE exE conjE)
    assume "ball g' = ball g"
    with inv show ?thesis by simp
  next
    fix lp :: paddle and rp :: ai_paddle
    assume u: "Ball_update dt_ms (bounds g) (lp, rp) (ball g) = Inr (None, ball g')"
    have "speed (ball g) \<le> speed (ball g') \<and> speed (ball g') \<le> BALL_SPEED_MAX"
      using Ball_update_speed(1) [OF u] speed_step_bounds [of "speed (ball g)"] inv by auto
    moreover have "vec_length (velocity (ball g')) = speed (ball g')"
      using Ball_update_None_length [OF u s0] inv by simp
    ultimately show ?thesis using inv by simp
  next
    fix lp :: paddle and rp :: ai_paddle and side b1
    assume u: "Ball_update dt_ms (bounds g) (lp, rp) (ball g) = Inr (Some side, b1)"
      and r: "reset (center (bounds g)) (Some (side = 1)) (serve d) b1 = Inr (ball g')"
    have "speed b1 = min BALL_SPEED_MAX (speed (ball g) + BALL_SPEED_INCREMENT)"
      using Ball_update_speed(2) [OF u] by simp
    then have "speed (ball g) \<le> speed b1 \<and> speed b1 \<le> BALL_SPEED_MAX"
      using speed_step_bounds [of "speed (ball g)"] inv by simp
    then show ?thesis
      using inv reset_speed [OF r] reset_length [OF r] by (simp add: BALL_SPEED_START_def)
  qed
next
  case (reach_restart g d g')
  then show ?case
    by (auto simp: restart_def reset_result vec_length_scale serve_direction_length
        BALL_SPEED_START_def BALL_SPEED_MAX_def split: if_splits sum.splits)
qed

text \<open>The constructed game, for the serve draw that gives the angle 0.\<close>

lemma Game_example:
  "Game \<lparr>draw_first = 1 / 2, draw_second = 1 / 2, pick_second = False\<rparr> =
     Inr \<lparr>bounds = \<lparr>width = 800, height = 600\<rparr>,
          left_paddle = Paddle 30 250 12 100 6,
          right_paddle = AIPaddle 758 250 12 100 (57 / 10),
          ball = \<lparr>rect = \<lparr>rect_x = 393, rect_y = 293, rect_w = 14, rect_h = 14\<rparr>,
                  velocity = Vector2 5 0, speed = 5, serve_cooldown = 1200\<rparr>,
          score = [0, 0], winner = None\<rparr>"
  by (simp add: Game_def Ball_def reset_def serve_direction_def serve_angle_def
        uniform_def rotate_def radians_def normalize_def vec_length_def scale_def Vector2_def
        set_center_def py_int_def center_def Let_def
        WIDTH_def HEIGHT_def PADDLE_WIDTH_def PADDLE_HEIGHT_def PADDLE_MARGIN_def
        PADDLE_SPEED_def BALL_SIZE_def BALL_SPEED_START_def COUNTDOWN_TIME_def)

lemma reachable_example:
  "reachable \<lparr>bounds = \<lparr>width = 800, height = 600\<rparr>,
          left_paddle = Paddle 30 250 12 100 6,
          right_paddle = AIPaddle 758 250 12 100 (57 / 10),
          ball = \<lparr>rect = \<lparr>rect_x = 393, rect_y = 293, rect_w = 14, rect_h = 14\<rparr>,
                  velocity = Vector2 5 0, speed = 5, serve_cooldown = 1200\<rparr>,
          score = [0, 0], winner = None\<rparr>"
  by (rule reach_init [OF _ Game_example]) (simp add: serve_draws_ok_def unit_draw_def)


lemma Ball_update_move_example:
  "Ball_update 16 \<lparr>width = 800, height = 600\<rparr>
       (Paddle 30 250 12 100 6, AIPaddle 758 250 12 100 (57 / 10))
       \<lparr>rect = \<lparr>rect_x = 393, rect_y = 293, rect_w = 14, rect_h = 14\<rparr>,
        velocity = Vector2 5 0, speed = 5, serve_cooldown = 0\<rparr>
   = Inr (None,
       \<lparr>rect = \<lparr>rect_x = 397, rect_y = 293, rect_w = 14, rect_h = 14\<rparr>,
        velocity = Vector2 5 0, speed = 5, serve_cooldown = 0\<rparr>)"
  by (simp add: Ball_update_def advance_def wall_collide_def scored_side_def colliderect_def
        scale_def Vector2_def Paddle_def AIPaddle_def Let_def py_int_def FPS_def
        rect_top_def rect_bottom_def rect_left_def rect_right_def)





text \<open>
  Claim C3.  With floats read as reals the magnitude of the velocity equals the speed
  exactly: \<^verbatim>\<open>reset\<close> always returns and establishes it for a ball of non-negative
  speed; the motion with the wall reflection preserves it; every paddle bounce
  re-establishes it at the raised speed; so a tick of \<^verbatim>\<open>Ball.update\<close> that does not
  score preserves it; and it holds of the ball in every state the game can reach, hence
  at every Active tick.
\<close>

theorem velocity_magnitude_is_speed:
  "(0 \<le> speed b \<longrightarrow>
      (\<exists>b'. reset c to_left d b = Inr b' \<and> vec_length (velocity b') = speed b'))
   \<and> (vec_length (velocity b) = speed b \<longrightarrow>
        vec_length (velocity (wall_collide bnds (advance dt_ms b)))
          = speed (wall_collide bnds (advance dt_ms b)))
   \<and> (0 \<le> speed b \<and> bounce_off_paddle pad b = Inr b1 \<longrightarrow>
        vec_length (velocity b1) = speed b1)
   \<and> (0 \<le> speed b \<and> vec_length (velocity b) = speed b
        \<and> Ball_update dt_ms bnds paddles b = Inr (None, b2) \<longrightarrow>
        vec_length (velocity b2) = speed b2)
   \<and> (reachable g \<longrightarrow> vec_length (velocity (ball g)) = speed (ball g))"
proof -
  have "0 \<le> speed b \<longrightarrow>
      (\<exists>b'. reset c to_left d b = Inr b' \<and> vec_length (velocity b') = speed b')"
    by (simp add: reset_result vec_length_scale serve_direction_length)
  moreover have "vec_length (velocity b) = speed b \<longrightarrow>
        vec_length (velocity (wall_collide bnds (advance dt_ms b)))
          = speed (wall_collide bnds (advance dt_ms b))"
    by (simp add: wall_collide_keeps advance_keeps)
  moreover have "0 \<le> speed b \<and> bounce_off_paddle pad b = Inr b1 \<longrightarrow>
        vec_length (velocity b1) = speed b1"
    using bounce_off_paddle_length [of pad b b1] by blast
  moreover have "0 \<le> speed b \<and> vec_length (velocity b) = speed b
        \<and> Ball_update dt_ms bnds paddles b = Inr (None, b2) \<longrightarrow>
        vec_length (velocity b2) = speed b2"
    using Ball_update_None_length [of dt_ms bnds paddles b b2] by blast
  moreover have "reachable g \<longrightarrow> vec_length (velocity (ball g)) = speed (ball g)"
    using reachable_inv [of g] by blast
  ultimately show ?thesis by blast
qed

theorem velocity_magnitude_is_speed_witness:
  "Ball_update 16 \<lparr>width = 800, height = 600\<rparr>
       (Paddle 30 250 12 100 6, AIPaddle 758 250 12 100 (57 / 10))
       \<lparr>rect = \<lparr>rect_x = 393, rect_y = 293, rect_w = 14, rect_h = 14\<rparr>,
        velocity = Vector2 5 0, speed = 5, serve_cooldown = 0\<rparr>
     = Inr (None,
         \<lparr>rect = \<lparr>rect_x = 397, rect_y = 293, rect_w = 14, rect_h = 14\<rparr>,
          velocity = Vector2 5 0, speed = 5, serve_cooldown = 0\<rparr>)
   \<and> vec_length (Vector2 5 0) = 5
   \<and> (\<exists>b'. reset (Vector2 400 300) None
               \<lparr>draw_first = 1 / 4, draw_second = 3 / 4, pick_second = True\<rparr>
               (Ball 400 300 14 5) = Inr b'
          \<and> vec_length (velocity b') = speed b')
   \<and> (\<exists>b1. bounce_off_paddle (Paddle 30 250 12 100 6) (Ball 400 300 14 5) = Inr b1
          \<and> vec_length (velocity b1) = speed b1)"
proof -
  let ?g = "\<lparr>bounds = \<lparr>width = 800, height = 600\<rparr>,
              left_paddle = Paddle 30 250 12 100 6,
              right_paddle = AIPaddle 758 250 12 100 (57 / 10),
              ball = \<lparr>rect = \<lparr>rect_x = 393, rect_y = 293, rect_w = 14, rect_h = 14\<rparr>,
                      velocity = Vector2 5 0, speed = 5, serve_cooldown = 1200\<rparr>,
              score = [0, 0], winner = None\<rparr>"
  let ?d = "\<lparr>draw_first = 1 / 4, draw_second = 3 / 4, pick_second = True\<rparr>"
  let ?b = "\<lparr>rect = \<lparr>rect_x = 393, rect_y = 293, rect_w = 14, rect_h = 14\<rparr>,
        velocity = Vector2 5 0, speed = 5, serve_cooldown = 0\<rparr>"
  let ?b2 = "\<lparr>rect = \<lparr>rect_x = 397, rect_y = 293, rect_w = 14, rect_h = 14\<rparr>,
          velocity = Vector2 5 0, speed = 5, serve_cooldown = 0\<rparr>"
  let ?pad = "Paddle 30 250 12 100 6"
  let ?B = "Ball 400 300 14 5"
  have sp: "0 \<le> speed ?B" "0 \<le> speed ?b"
    by (simp_all add: Ball_def)
  have "reachable ?g \<longrightarrow> vec_length (velocity (ball ?g)) = speed (ball ?g)"
    using velocity_magnitude_is_speed [where g = ?g] by blast
  then have len: "vec_length (velocity ?b) = speed ?b"
    using reachable_example by simp
  obtain b1 where b1: "bounce_off_paddle ?pad ?B = Inr b1"
    using bounce_off_paddle_result [of ?pad ?B] by (simp add: Paddle_def)
  have r: "\<exists>b'. reset (Vector2 400 300) None ?d ?B = Inr b' \<and> vec_length (velocity b') = speed b'"
    using velocity_magnitude_is_speed [where b = ?B and c = "Vector2 400 300"
        and to_left = None and d = ?d] sp by blast
  have t: "vec_length (velocity ?b2) = speed ?b2"
    using velocity_magnitude_is_speed [where b = ?b and ?b2.0 = ?b2 and dt_ms = 16
        and bnds = "\<lparr>width = 800, height = 600\<rparr>"
        and paddles = "(Paddle 30 250 12 100 6, AIPaddle 758 250 12 100 (57 / 10))"]
      sp len Ball_update_move_example by blast
  have bn: "vec_length (velocity b1) = speed b1"
    using velocity_magnitude_is_speed [where b = ?B and pad = ?pad and ?b1.0 = b1] sp b1
    by blast
  show ?thesis
    using Ball_update_move_example r t b1 bn by auto
qed



section \<open>Scoring and the next serve\<close>











end
